theory Spec2Isabelle
  imports Complex_Main "HOL-Library.Word"
begin

section \<open>Data model\<close>

text \<open>
  The residual maps are numpy arrays of dtype uint8 and shape (N, H, W, 1). A pixel is an
  8-bit word, an image is the list of its rows and a batch is the list of its images; the
  trailing channel axis of length one carries no information and is not represented.
\<close>

type_synonym pixel = "8 word"
type_synonym image = "pixel list list"
type_synonym batch = "image list"

text \<open>The exceptions that the modelled functions and the library calls in them can raise.\<close>

datatype py_error = ValueError | UnboundLocalError | IndexError | TypeError | Cv2Error

text \<open>
  A float64 result: a finite value, given as a real, or one of the values that a division
  by zero produces. Dividing a numpy scalar or array by zero does not raise: it warns and
  gives NaN for 0/0 and an infinity otherwise. \<open>np_true_divide\<close> gives the quotient of
  two integers as a real without rounding it; where rounding to a float64 matters, in the
  histogram, it is an explicit argument \<open>fl\<close> of the model: \<open>fl x\<close> stands for the float64
  nearest to \<open>x\<close>, and \<open>np_divide\<close> is the division of a float64 by a finite one.
\<close>

datatype np_float = Finite real | PosInf | NegInf | NaN

definition np_true_divide :: "real \<Rightarrow> real \<Rightarrow> np_float" where
  "np_true_divide a b =
     (if b \<noteq> 0 then Finite (a / b)
      else if a = 0 then NaN
      else if 0 < a then PosInf else NegInf)"


section \<open>processing/cv.py\<close>

subsection \<open>threshold_images\<close>

text \<open>
  \<open>cv2.threshold(src, thresh, maxval, cv2.THRESH_BINARY)[1]\<close> on an 8-bit image. The
  library takes \<open>thresh\<close> as a double and converts it to a 32-bit int (\<open>cvFloor\<close>); a
  value outside the 32-bit range comes out as the least 32-bit int. A pixel strictly
  greater than the converted threshold becomes \<open>maxval\<close>, every other pixel becomes 0.
  For a converted threshold below 0 the library fills the image with \<open>maxval\<close> and for
  one of 255 or more with 0, which is what the comparison gives on bytes.
\<close>

definition cvFloor :: "int \<Rightarrow> int" where
  "cvFloor thresh = (if - (2 ^ 31) \<le> thresh \<and> thresh < 2 ^ 31 then thresh else - (2 ^ 31))"

definition cv2_threshold_binary :: "image \<Rightarrow> int \<Rightarrow> pixel \<Rightarrow> image" where
  "cv2_threshold_binary src thresh maxval =
     map (map (\<lambda>p. if cvFloor thresh < uint p then maxval else 0)) src"

text \<open>
  \<^verbatim>\<open>
  def threshold_images(images, threshold):
      """
      All pixel values < threshold  ==> 0, else ==> 255
      """
      images_th = np.zeros(shape=images.shape, dtype="uint8")
      for i, image in enumerate(images):
          image_th = cv2.threshold(image, threshold, 255, cv2.THRESH_BINARY)[1]
          image_th = np.expand_dims(image_th, axis=-1)
          images_th[i] = image_th.astype("uint8")
      return images_th
  \<close>
\<close>

definition threshold_images :: "batch \<Rightarrow> int \<Rightarrow> batch" where
  "threshold_images images threshold =
     map (\<lambda>image. cv2_threshold_binary image threshold 255) images"

text \<open>
  \<open>threshold_images\<close> is the batch that a call returns. The outcome of a call, with the
  ways in which it fails, is \<open>call_threshold_images\<close>: the body has no \<open>raise\<close> and no
  check of \<open>threshold\<close>, but the statements of the loop can fail. A threshold too large
  for a double is rejected when \<open>cv2.threshold\<close> is called (cv2.error), and for an image
  without pixels \<open>cv2.threshold\<close> returns no image, on which \<open>astype\<close> raises TypeError.
  With no image in the batch the loop body does not run.
\<close>

definition call_threshold_images :: "batch \<Rightarrow> int \<Rightarrow> py_error + batch" where
  "call_threshold_images images threshold =
     (if images = [] then Inr []
      else if 2 ^ 1024 \<le> \<bar>threshold\<bar> then Inl Cv2Error
      else if list_ex (\<lambda>image. concat image = []) images then Inl TypeError
      else Inr (threshold_images images threshold))"

subsection \<open>filter_median_images\<close>

text \<open>
  \<open>cv2.medianBlur(src, ksize)\<close> replaces each pixel by the median of the \<open>ksize \<times> ksize\<close>
  window around it; at the border the window reads the nearest pixel of the image
  (BORDER_REPLICATE). \<open>pixel_at\<close> reads a pixel; its default 0 is never reached from
  \<open>window\<close> on a rectangular image, where every replicated index is in range.
\<close>

definition pixel_at :: "image \<Rightarrow> nat \<Rightarrow> nat \<Rightarrow> pixel" where
  "pixel_at src r c = (if r < length src \<and> c < length (src ! r) then src ! r ! c else 0)"

definition replicate_index :: "int \<Rightarrow> nat \<Rightarrow> nat" where
  "replicate_index i n = nat (max 0 (min i (int n - 1)))"

definition window_offsets :: "nat \<Rightarrow> int list" where
  "window_offsets ksize = [- int (ksize div 2) .. int (ksize div 2)]"

definition window :: "image \<Rightarrow> nat \<Rightarrow> nat \<Rightarrow> nat \<Rightarrow> pixel list" where
  "window src ksize r c =
     concat (map (\<lambda>dr. map (\<lambda>dc.
        pixel_at src (replicate_index (int r + dr) (length src))
                     (replicate_index (int c + dc) (length (src ! r))))
        (window_offsets ksize)) (window_offsets ksize))"

definition median :: "pixel list \<Rightarrow> pixel" where
  "median xs = sort xs ! (length xs div 2)"

definition cv2_medianBlur :: "image \<Rightarrow> nat \<Rightarrow> image" where
  "cv2_medianBlur src ksize =
     map (\<lambda>r. map (\<lambda>c. median (window src ksize r c)) [0..<length (src ! r)]) [0..<length src]"

text \<open>
  \<^verbatim>\<open>
  def filter_median_images(images, kernel_size=3):
      images_filtered = np.zeros(shape=images.shape, dtype="uint8")
      for i, image in enumerate(images):
          image_filtered = cv2.medianBlur(image, kernel_size)
          image_filtered = np.expand_dims(image_filtered, axis=-1)
          images_filtered[i] = image_filtered
      return images_filtered
  \<close>
  \<open>cv2.medianBlur\<close> rejects a kernel size that is not odd and positive; the call is reached
  only when the batch has an image. The batches filtered below are results of
  \<open>call_threshold_images\<close>, whose images have pixels.
\<close>

definition filter_median_images :: "batch \<Rightarrow> int \<Rightarrow> py_error + batch" where
  "filter_median_images images kernel_size =
     (if images \<noteq> [] \<and> \<not> (0 < kernel_size \<and> odd kernel_size) then Inl Cv2Error
      else Inr (map (\<lambda>image. cv2_medianBlur image (nat kernel_size)) images))"

subsection \<open>label_images\<close>

text \<open>
  \<open>skimage.measure.label\<close> with its default connectivity joins two pixels when they touch
  by a side or a corner and hold the same value; pixels of value 0 are background. A
  region is the set of pixels reachable from one foreground pixel through such links, and
  labels are given in raster order of a region's first pixel. The label image is
  represented by the list of its regions in label order, and \<open>region.area\<close> of
  \<open>regionprops\<close> is the number of pixels of a region.
\<close>

type_synonym coord = "nat \<times> nat"

definition coords :: "image \<Rightarrow> coord list" where
  "coords img = concat (map (\<lambda>r. map (\<lambda>c. (r, c)) [0..<length (img ! r)]) [0..<length img])"

definition foreground :: "image \<Rightarrow> coord list" where
  "foreground img = filter (\<lambda>p. pixel_at img (fst p) (snd p) \<noteq> 0) (coords img)"

definition neighbours :: "coord \<Rightarrow> coord \<Rightarrow> bool" where
  "neighbours p q =
     (fst p \<le> fst q + 1 \<and> fst q \<le> fst p + 1 \<and> snd p \<le> snd q + 1 \<and> snd q \<le> snd p + 1)"

definition links :: "image \<Rightarrow> (coord \<times> coord) set" where
  "links img =
     set (filter (\<lambda>(p, q). neighbours p q
                    \<and> pixel_at img (fst p) (snd p) = pixel_at img (fst q) (snd q))
           (List.product (foreground img) (foreground img)))"

fun regions_from :: "(coord \<times> coord) set \<Rightarrow> coord list \<Rightarrow> coord set list" where
  "regions_from E [] = []"
| "regions_from E (p # ps) =
     (E\<^sup>+ `` {p}) # regions_from E (filter (\<lambda>q. q \<notin> E\<^sup>+ `` {p}) ps)"

definition label_regions :: "image \<Rightarrow> coord set list" where
  "label_regions img = regions_from (links img) (foreground img)"

text \<open>
  \<^verbatim>\<open>
  def label_images(images):
      images_labeled = np.zeros(shape=images.shape)
      areas_all = []
      for i, image_th in enumerate(images):
          image_labeled = label(image_th)
          images_labeled[i] = image_labeled
          regions = regionprops(image_labeled)
          areas = [region.area for region in regions]
          areas_all.append(areas)
      return images_labeled, areas_all
  \<close>
\<close>

definition label_images :: "batch \<Rightarrow> coord set list list \<times> nat list list" where
  "label_images images =
     (map label_regions images, map (\<lambda>image. map card (label_regions image)) images)"

section \<open>inspection.py\<close>

subsection \<open>get_max_area\<close>

text \<open>\<open>np.amax\<close> of an empty array raises ValueError.\<close>

definition np_amax :: "nat list \<Rightarrow> py_error + nat" where
  "np_amax xs = (if xs = [] then Inl ValueError else Inr (Max (set xs)))"

text \<open>
  \<^verbatim>\<open>
  def get_max_area(resmaps, threshold):
      resmaps_th = threshold_images(resmaps, threshold)
      resmaps_fil = filter_median_images(resmaps_th)
      resmaps_labeled, areas_all = label_images(resmaps_fil)
      areas_all_1d = [item for sublist in areas_all for item in sublist]
      max_area = np.amax(np.array(areas_all_1d))
      return max_area
  \<close>
\<close>

definition get_max_area :: "batch \<Rightarrow> int \<Rightarrow> py_error + nat" where
  "get_max_area resmaps threshold =
     (case call_threshold_images resmaps threshold of
        Inl e \<Rightarrow> Inl e
      | Inr resmaps_th \<Rightarrow>
          (case filter_median_images resmaps_th 3 of
             Inl e \<Rightarrow> Inl e
           | Inr resmaps_fil \<Rightarrow>
               let (resmaps_labeled, areas_all) = label_images resmaps_fil;
                   areas_all_1d = concat areas_all;
                   max_area = np_amax areas_all_1d
               in max_area))"

subsection \<open>get_area_size_counts_multiple_thresholds\<close>






subsection \<open>get_threshold_min\<close>

text \<open>
  The pixels of a batch as one sequence of numbers (\<open>flatten\<close>), their mean and their
  (population) standard deviation, \<open>np.round\<close> to a number of decimals (round half to
  even on the scaled value) and \<open>int\<close> of a float (truncation towards zero).
\<close>

definition flatten :: "batch \<Rightarrow> real list" where
  "flatten resmaps = map (\<lambda>p. real (unat p)) (concat (concat resmaps))"

definition np_mean :: "real list \<Rightarrow> real" where
  "np_mean xs = sum_list xs / real (length xs)"

definition np_std :: "real list \<Rightarrow> real" where
  "np_std xs = sqrt (np_mean (map (\<lambda>x. (x - np_mean xs)\<^sup>2) xs))"

definition np_rint :: "real \<Rightarrow> int" where
  "np_rint x =
     (if x - real_of_int \<lfloor>x\<rfloor> < 1 / 2 then \<lfloor>x\<rfloor>
      else if 1 / 2 < x - real_of_int \<lfloor>x\<rfloor> then \<lfloor>x\<rfloor> + 1
      else if even \<lfloor>x\<rfloor> then \<lfloor>x\<rfloor> else \<lfloor>x\<rfloor> + 1)"

definition py_round :: "real \<Rightarrow> nat \<Rightarrow> real" where
  "py_round x ndigits = real_of_int (np_rint (x * 10 ^ ndigits)) / 10 ^ ndigits"

definition py_int :: "real \<Rightarrow> int" where
  "py_int x = (if 0 \<le> x then \<lfloor>x\<rfloor> else \<lceil>x\<rceil>)"

text \<open>
  \<^verbatim>\<open>
  def get_threshold_min(resmaps, ppf_value=0.97):
      minimum = np.amin(resmaps_val_uint8)
      maximum = np.amax(resmaps_val_uint8)
      mu = resmaps_val_uint8.flatten().mean()
      sigma = resmaps_val_uint8.flatten().std()
      th_min = int(round(scipy.stats.norm(mu, sigma).ppf(0.97), 1)) - 1
      print(...)
      return th_min
  \<close>
  \<open>resmaps_val_uint8\<close> is a module-level array of the script, read when the function is
  called: it is an explicit argument of the model, before the two parameters of the
  function. The quantile function of the normal distribution is a library function and an
  argument too: \<open>norm_ppf mu sigma q\<close> stands for \<open>scipy.stats.norm(mu, sigma).ppf(q)\<close>
  with a positive \<open>sigma\<close>. \<open>np.amin\<close> raises ValueError on an array without elements;
  with \<open>sigma = 0\<close> the library returns NaN, which \<open>int\<close> rejects with ValueError.
\<close>

definition get_threshold_min ::
  "(real \<Rightarrow> real \<Rightarrow> real \<Rightarrow> real) \<Rightarrow> batch \<Rightarrow> batch \<Rightarrow> real \<Rightarrow> py_error + int" where
  "get_threshold_min norm_ppf resmaps_val_uint8 resmaps ppf_value =
     (if flatten resmaps_val_uint8 = [] then Inl ValueError
      else
        let mu = np_mean (flatten resmaps_val_uint8);
            sigma = np_std (flatten resmaps_val_uint8)
        in if \<not> 0 < sigma then Inl ValueError
           else
             let th_min = py_int (py_round (norm_ppf mu sigma (97 / 100)) 1) - 1
             in Inr th_min)"

section \<open>test.py\<close>

subsection \<open>is_defective and classify\<close>

text \<open>
  \<^verbatim>\<open>
  def is_defective(areas, min_area):
      areas = np.array(areas)
      if areas[areas >= min_area].shape[0] > 0:
          return 1
      return 0

  def classify(areas_all, min_area):
      y_pred = []
      for areas in areas_all:
          y_pred.append(is_defective(areas, min_area))
      return y_pred
  \<close>
\<close>

definition is_defective :: "int list \<Rightarrow> int \<Rightarrow> int" where
  "is_defective areas min_area =
     (if 0 < length (filter (\<lambda>a. min_area \<le> a) areas) then 1 else 0)"

definition classify :: "int list list \<Rightarrow> int \<Rightarrow> int list" where
  "classify areas_all min_area = map (\<lambda>areas. is_defective areas min_area) areas_all"

subsection \<open>The scoring statements of main\<close>

text \<open>
  \<open>sklearn.metrics.confusion_matrix(y_true, y_pred, normalize="true")\<close>: the labels are
  the sorted distinct values of both sequences, the matrix has one row and one column per
  label, and each row is divided by its sum (a row without samples becomes zeros). It
  raises ValueError on sequences of different lengths and on empty ones.
\<close>

definition py_count :: "int list \<Rightarrow> int \<Rightarrow> nat" where
  "py_count xs v = length (filter (\<lambda>x. x = v) xs)"

definition unique_labels :: "int list \<Rightarrow> int list \<Rightarrow> int list" where
  "unique_labels y_true y_pred = sort (remdups (y_true @ y_pred))"

definition confusion_matrix_normalize_true ::
  "int list \<Rightarrow> int list \<Rightarrow> py_error + real list list" where
  "confusion_matrix_normalize_true y_true y_pred =
     (if length y_true \<noteq> length y_pred then Inl ValueError
      else
        let labels = unique_labels y_true y_pred in
        if labels = [] then Inl ValueError
        else
          let cm = map (\<lambda>t. map (\<lambda>p. length (filter (\<lambda>(yt, yp). yt = t \<and> yp = p)
                                                  (zip y_true y_pred)))
                                 labels) labels
          in Inr (map (\<lambda>row. map (\<lambda>c. if sum_list row = 0 then 0
                                       else real c / real (sum_list row)) row)
                      cm))"

text \<open>
  \<^verbatim>\<open>
      P = y_true.count(1)
      N = y_true.count(0)
      TP = np.sum([1 if y_pred[i] == y_true[i] == 1 else 0 for i in range(total_number)])
      TN = np.sum([1 if y_pred[i] == y_true[i] == False else 0 for i in range(total_number)])
      TPR = TP / P
      TNR = TN / N
      conf_matrix = confusion_matrix(y_true, y_pred, normalize="true")
      tn, fp, fn, tp = confusion_matrix(y_true, y_pred, normalize="true").ravel()
      ...
      test_result["TPR"].append(TPR)
      test_result["TNR"].append(TNR)
  \<close>
  \<open>TP\<close> and \<open>TN\<close> are numpy scalars, so the two divisions follow numpy. Unpacking the
  flattened matrix into four names raises ValueError unless it has four entries. The
  result is the pair of rates that \<open>main\<close> goes on to store.
\<close>

definition main_scoring :: "int list \<Rightarrow> int list \<Rightarrow> nat \<Rightarrow> py_error + (np_float \<times> np_float)" where
  "main_scoring y_pred y_true total_number =
     (let P = py_count y_true 1;
          N = py_count y_true 0
      in if length y_pred < total_number \<or> length y_true < total_number then Inl IndexError
         else
           let TP = sum_list (map (\<lambda>i. if y_pred ! i = y_true ! i \<and> y_true ! i = 1 then 1 else 0)
                                  [0..<total_number]);
               TN = sum_list (map (\<lambda>i. if y_pred ! i = y_true ! i \<and> y_true ! i = 0 then 1 else 0)
                                  [0..<total_number]);
               TPR = np_true_divide (real_of_int TP) (real P);
               TNR = np_true_divide (real_of_int TN) (real N)
           in case confusion_matrix_normalize_true y_true y_pred of
                Inl e \<Rightarrow> Inl e
              | Inr conf_matrix \<Rightarrow>
                  if length (concat conf_matrix) \<noteq> 4 then Inl ValueError
                  else Inr (TPR, TNR))"

section \<open>Notions used in the statements\<close>

text \<open>
  The areas of all regions of a batch at a threshold: binarize, denoise with the 3 x 3
  median and label every image, and collect the region areas image by image. An image
  has pixels when its height and its width are not 0.
\<close>

definition has_pixels :: "image \<Rightarrow> bool" where
  "has_pixels img = (concat img \<noteq> [])"


definition region_areas :: "batch \<Rightarrow> int \<Rightarrow> nat list" where
  "region_areas resmaps threshold =
     concat (map (\<lambda>image.
       map card (label_regions (cv2_medianBlur (cv2_threshold_binary image threshold 255) 3)))
       resmaps)"





text \<open>
  Stated from the specification, to compare \<open>get_threshold_min\<close> with: the quantile of
  Normal(mu, sigma) at the percentile passed, for the mean and the standard deviation of
  the batch passed, rounded to the nearest integer, minus one.
\<close>

definition stated_threshold_min ::
  "(real \<Rightarrow> real \<Rightarrow> real \<Rightarrow> real) \<Rightarrow> batch \<Rightarrow> real \<Rightarrow> int" where
  "stated_threshold_min norm_ppf resmaps ppf_value =
     round (norm_ppf (np_mean (flatten resmaps)) (np_std (flatten resmaps)) ppf_value) - 1"

text \<open>
  Stated from the specification, to compare the scoring statements with: the number of
  images with prediction \<open>p\<close> and ground truth \<open>t\<close>, so that TP, FN, TN and FP are the
  counts for (1, 1), (0, 1), (0, 0) and (1, 0).
\<close>

definition outcome_count :: "int list \<Rightarrow> int list \<Rightarrow> int \<Rightarrow> int \<Rightarrow> nat" where
  "outcome_count y_pred y_true p t =
     length (filter (\<lambda>(yp, yt). yp = p \<and> yt = t) (zip y_pred y_true))"

text \<open>Pixelwise order of two images of one shape, and images holding only 0 and 255.\<close>

definition img_le :: "image \<Rightarrow> image \<Rightarrow> bool" where
  "img_le A B = list_all2 (list_all2 (\<le>)) A B"

definition binary_image :: "image \<Rightarrow> bool" where
  "binary_image A = list_all (list_all (\<lambda>p. p = 0 \<or> p = 255)) A"


section \<open>Properties of threshold_images\<close>

lemma threshold_pixel_twice:
  "(if thresh < uint (if thresh < uint (p::pixel) then 255 else 0 :: pixel) then 255 else 0 :: pixel)
     = (if thresh < uint p then 255 else 0)"
proof (cases "thresh < uint p")
  case True
  have "uint p \<le> 255"
    using uint_bounded [of p] by simp
  with True have "thresh < 255" by linarith
  with True show ?thesis by simp
next
  case False
  have "0 \<le> uint p"
    by (rule uint_ge_0)
  with False have "\<not> thresh < 0" by linarith
  with False show ?thesis by simp
qed

lemma cvFloor_in_range: "- (2 ^ 31) \<le> tau \<Longrightarrow> tau < 2 ^ 31 \<Longrightarrow> cvFloor tau = tau"
  by (simp add: cvFloor_def)

lemma threshold_images_pixel:
  assumes "i < length X" and "r < length (X ! i)" and "c < length (X ! i ! r)"
  shows "threshold_images X tau ! i ! r ! c
         = (if cvFloor tau < uint (X ! i ! r ! c) then 255 else 0)"
  using assms by (simp add: threshold_images_def cv2_threshold_binary_def)

lemma cv2_threshold_binary_twice:
  "cv2_threshold_binary (cv2_threshold_binary src thresh 255) thresh 255
     = cv2_threshold_binary src thresh 255"
  by (simp add: cv2_threshold_binary_def threshold_pixel_twice)

text \<open>
  C1 (the code at the boundary). The claim has a pixel equal to the threshold become 255.
  The docstring of \<open>threshold_images\<close> says the same ("all pixel values < threshold ==> 0,
  else ==> 255"), but \<open>cv2.THRESH_BINARY\<close> compares strictly: in a row holding 99, 100 and
  101, thresholded at 100, only 101 becomes foreground.
\<close>

theorem threshold_images_boundary_is_background:
  "threshold_images [[[99, 100, 101]]] 100 = [[[0, 0, 255]]]"
  by (simp add: threshold_images_def cv2_threshold_binary_def cvFloor_def)

text \<open>
  C8. Thresholding the output of \<open>threshold_images\<close> again at the same threshold returns
  that output unchanged. This holds for every integer threshold, in particular for every
  threshold in [0, 255].
\<close>

theorem threshold_images_idempotent:
  "threshold_images (threshold_images X tau) tau = threshold_images X tau"
  by (simp add: threshold_images_def cv2_threshold_binary_twice)

theorem threshold_images_idempotent_witness:
  "threshold_images (threshold_images [[[0, 7], [200, 255]]] 7) 7 = [[[0, 0], [255, 255]]]"
  using threshold_images_idempotent [of "[[[0, 7], [200, 255]]]" 7]
  by (simp add: threshold_images_def cv2_threshold_binary_def cvFloor_def)

lemma call_threshold_images_returns:
  assumes "\<forall>image \<in> set X. has_pixels image" and "- (2 ^ 31) \<le> tau" and "tau < 2 ^ 31"
  shows "call_threshold_images X tau = Inr (threshold_images X tau)"
proof -
  have "\<bar>tau\<bar> \<le> 2 ^ 31"
    using assms(2,3) by (simp add: abs_le_iff)
  also have "(2::int) ^ 31 < 2 ^ 1024"
    by (rule power_strict_increasing) simp_all
  finally have "\<not> 2 ^ 1024 \<le> \<bar>tau\<bar>"
    by simp
  moreover have "\<not> list_ex (\<lambda>image. concat image = []) X"
    using assms(1) by (simp add: list_ex_iff has_pixels_def)
  ultimately show ?thesis
    by (simp add: call_threshold_images_def threshold_images_def)
qed

lemma threshold_images_binary_shape:
  "list_all2 (list_all2 (list_all2 (\<lambda>p q. q = 0 \<or> q = 255))) X (threshold_images X tau)"
  by (simp add: threshold_images_def cv2_threshold_binary_def list_all2_map2 list_all2_same)

text \<open>
  C10 (counterexample). The claim has \<open>threshold_images\<close> fail for a threshold outside
  [0, 255]. The code has no such check: at 300 and at -1 the call returns a batch.
\<close>

theorem threshold_images_out_of_range_returns:
  "call_threshold_images [[[7, 200]]] 300 = Inr [[[0, 0]]]
   \<and> call_threshold_images [[[7, 200]]] (- 1) = Inr [[[255, 255]]]"
  by (simp add: call_threshold_images_def threshold_images_def cv2_threshold_binary_def
      cvFloor_def)

text \<open>
  C10 (amended). \<open>threshold_images\<close> does not validate its threshold and knows no
  ParameterError. On a batch whose images have pixels, for every integer threshold that
  fits a signed 32-bit integer, inside [0, 255] or not, the call returns a batch of the
  shape of its input that holds only 0 and 255; for a threshold below 0 every pixel of the
  result is 255 and for a threshold above 255 every pixel is 0.
\<close>

theorem threshold_images_never_validates:
  assumes "\<forall>image \<in> set X. has_pixels image" and "- (2 ^ 31) \<le> tau" and "tau < 2 ^ 31"
  shows "\<exists>Y. call_threshold_images X tau = Inr Y
           \<and> list_all2 (list_all2 (list_all2 (\<lambda>p q. q = 0 \<or> q = 255))) X Y
           \<and> (tau < 0 \<longrightarrow> Y = map (map (map (\<lambda>p. 255))) X)
           \<and> (255 < tau \<longrightarrow> Y = map (map (map (\<lambda>p. 0))) X)"
proof -
  have fl: "cvFloor tau = tau"
    by (rule cvFloor_in_range [OF assms(2,3)])
  have b: "uint p \<le> 255" for p :: pixel
    using uint_bounded [of p] by simp
  have neg: "tau < 0 \<Longrightarrow> tau < uint p" for p :: pixel
    using uint_ge_0 [of p] by linarith
  have big: "255 < tau \<Longrightarrow> \<not> tau < uint p" for p :: pixel
    using b [of p] by linarith
  have "tau < 0 \<longrightarrow> threshold_images X tau = map (map (map (\<lambda>p. 255))) X"
    using neg by (simp add: threshold_images_def cv2_threshold_binary_def fl)
  moreover have "255 < tau \<longrightarrow> threshold_images X tau = map (map (map (\<lambda>p. 0))) X"
    using big by (simp add: threshold_images_def cv2_threshold_binary_def fl)
  ultimately show ?thesis
    using call_threshold_images_returns [OF assms] threshold_images_binary_shape [of X tau]
    by simp
qed

theorem threshold_images_never_validates_witness:
  "has_pixels [[7, 200]]
   \<and> - (2 ^ 31) \<le> (- 5 :: int) \<and> (256 :: int) < 2 ^ 31
   \<and> call_threshold_images [[[7, 200]]] (- 5) = Inr [[[255, 255]]]
   \<and> call_threshold_images [[[7, 200]]] 256 = Inr [[[0, 0]]]
   \<and> call_threshold_images [[[7, 200]]] 100 = Inr [[[0, 255]]]"
proof -
  have h: "\<forall>image \<in> set [[[7, 200 :: pixel]]]. has_pixels image"
    by (simp add: has_pixels_def)
  have "call_threshold_images [[[7, 200]]] 100 = Inr [[[0, 255]]]"
    by (simp add: call_threshold_images_def threshold_images_def cv2_threshold_binary_def
        cvFloor_def)
  with h threshold_images_never_validates [OF h, of "- 5"]
    threshold_images_never_validates [OF h, of 256]
    threshold_images_never_validates [OF h, of 100]
  show ?thesis
    by (auto simp add: has_pixels_def)
qed

section \<open>Properties of is_defective\<close>

text \<open>
  C5. \<open>is_defective\<close> returns 1 exactly when some area of the sequence is at least
  \<open>min_area\<close>, it returns 0 otherwise, and it returns 0 on the empty sequence.
\<close>

theorem is_defective_iff:
  "(is_defective areas min_area = 1 \<longleftrightarrow> (\<exists>a \<in> set areas. min_area \<le> a))
   \<and> (is_defective areas min_area = 0 \<longleftrightarrow> \<not> (\<exists>a \<in> set areas. min_area \<le> a))
   \<and> is_defective [] min_area = 0"
  by (auto simp: is_defective_def filter_empty_conv)

theorem is_defective_iff_witness:
  "is_defective [3, 80, 12] 80 = 1 \<and> (\<exists>a \<in> set [3, 80, 12 :: int]. 80 \<le> a)
   \<and> is_defective [3, 79] 80 = 0 \<and> is_defective [] 80 = 0"
  using is_defective_iff [of "[3, 80, 12]" 80] is_defective_iff [of "[3, 79]" 80]
  by simp

section \<open>The median is monotone\<close>

lemma count_le_antimono:
  "list_all2 (\<le>) xs ys \<Longrightarrow>
     length (filter (\<lambda>y. y \<le> v) ys) \<le> length (filter (\<lambda>x. x \<le> (v::'a::linorder)) xs)"
  by (induction rule: list_all2_induct) auto

lemma sorted_count_upto_nth:
  assumes "sorted s" and "k < length s"
  shows "Suc k \<le> length (filter (\<lambda>y. y \<le> s ! k) (s::'a::linorder list))"
proof -
  have all: "\<forall>x \<in> set (take (Suc k) s). x \<le> s ! k"
  proof
    fix x assume "x \<in> set (take (Suc k) s)"
    then obtain i where i: "i < Suc k" "i < length s" "x = s ! i"
      by (auto simp: in_set_conv_nth)
    with assms show "x \<le> s ! k"
      by (simp add: sorted_nth_mono)
  qed
  have "length (filter (\<lambda>y. y \<le> s ! k) (take (Suc k) s)) = Suc k"
    using all assms(2) by (simp add: filter_id_conv[THEN iffD2] min_def)
  moreover have "filter (\<lambda>y. y \<le> s ! k) s
      = filter (\<lambda>y. y \<le> s ! k) (take (Suc k) s) @ filter (\<lambda>y. y \<le> s ! k) (drop (Suc k) s)"
    by (metis append_take_drop_id filter_append)
  ultimately show ?thesis by simp
qed

lemma sorted_count_below_nth:
  assumes "sorted s" and "k < length s" and "v < s ! k"
  shows "length (filter (\<lambda>y. y \<le> v) (s::'a::linorder list)) \<le> k"
proof -
  have none: "\<forall>x \<in> set (drop k s). \<not> x \<le> v"
  proof
    fix x assume "x \<in> set (drop k s)"
    then obtain i where i: "i < length s - k" "x = s ! (k + i)"
      by (auto simp: in_set_conv_nth)
    with assms have "s ! k \<le> x"
      by (simp add: sorted_nth_mono)
    with assms(3) show "\<not> x \<le> v" by simp
  qed
  have "filter (\<lambda>y. y \<le> v) s
      = filter (\<lambda>y. y \<le> v) (take k s) @ filter (\<lambda>y. y \<le> v) (drop k s)"
    by (metis append_take_drop_id filter_append)
  also have "filter (\<lambda>y. y \<le> v) (drop k s) = []"
    using none by (simp add: filter_empty_conv)
  finally have "filter (\<lambda>y. y \<le> v) s = filter (\<lambda>y. y \<le> v) (take k s)"
    by simp
  moreover have "length (filter (\<lambda>y. y \<le> v) (take k s)) \<le> length (take k s)"
    by (rule length_filter_le)
  ultimately show ?thesis by simp
qed

lemma sort_nth_mono:
  assumes le: "list_all2 (\<le>) xs ys" and k: "k < length xs"
  shows "sort xs ! k \<le> sort (ys::'a::linorder list) ! k"
proof (rule ccontr)
  assume "\<not> sort xs ! k \<le> sort ys ! k"
  then have lt: "sort ys ! k < sort xs ! k" by simp
  have len: "length ys = length xs"
    using le by (simp add: list_all2_lengthD)
  have "length (filter (\<lambda>y. y \<le> sort ys ! k) (sort xs)) \<le> k"
    using sorted_count_below_nth [of "sort xs" k "sort ys ! k"] k lt by simp
  then have a: "length (filter (\<lambda>y. y \<le> sort ys ! k) xs) \<le> k"
    by (simp add: filter_sort)
  have "Suc k \<le> length (filter (\<lambda>y. y \<le> sort ys ! k) (sort ys))"
    using sorted_count_upto_nth [of "sort ys" k] k len by simp
  then have b: "Suc k \<le> length (filter (\<lambda>y. y \<le> sort ys ! k) ys)"
    by (simp add: filter_sort)
  from count_le_antimono [OF le, of "sort ys ! k"] a b show False by simp
qed

lemma median_mono:
  assumes "list_all2 (\<le>) xs ys"
  shows "median xs \<le> median ys"
proof (cases "xs = []")
  case True
  with assms show ?thesis by (simp add: median_def)
next
  case False
  then have "length xs div 2 < length xs" by simp
  moreover have "length ys = length xs"
    using assms by (simp add: list_all2_lengthD)
  ultimately show ?thesis
    using sort_nth_mono [OF assms, of "length xs div 2"] by (simp add: median_def)
qed

lemma median_in_set: "xs \<noteq> [] \<Longrightarrow> median xs \<in> set xs"
proof -
  assume "xs \<noteq> []"
  then have "length xs div 2 < length (sort xs)" by simp
  then have "sort xs ! (length xs div 2) \<in> set (sort xs)"
    by (rule nth_mem)
  then show ?thesis by (simp add: median_def)
qed

section \<open>Thresholding and median filtering preserve the pixelwise order\<close>

lemma img_le_length: "img_le A B \<Longrightarrow> length B = length A"
  by (simp add: img_le_def list_all2_lengthD)

lemma img_le_row: "img_le A B \<Longrightarrow> r < length A \<Longrightarrow> list_all2 (\<le>) (A ! r) (B ! r)"
  by (simp add: img_le_def list_all2_nthD)

lemma img_le_row_length: "img_le A B \<Longrightarrow> r < length A \<Longrightarrow> length (B ! r) = length (A ! r)"
  using img_le_row [of A B r] by (simp add: list_all2_lengthD)

lemma pixel_at_mono:
  assumes "img_le A B"
  shows "pixel_at A r c \<le> pixel_at B r c"
proof (cases "r < length A \<and> c < length (A ! r)")
  case True
  then have "A ! r ! c \<le> B ! r ! c"
    using img_le_row [OF assms, of r] by (simp add: list_all2_nthD)
  with True show ?thesis
    using img_le_length [OF assms] img_le_row_length [OF assms, of r]
    by (simp add: pixel_at_def)
next
  case False
  then show ?thesis
    using img_le_length [OF assms] img_le_row_length [OF assms, of r]
    by (auto simp: pixel_at_def)
qed

lemma list_all2_concat_map:
  assumes "\<And>x y. x \<in> set xs \<Longrightarrow> y \<in> set ys \<Longrightarrow> P (f x y) (g x y)"
  shows "list_all2 P (concat (map (\<lambda>x. map (f x) ys) xs)) (concat (map (\<lambda>x. map (g x) ys) xs))"
  using assms
proof (induction xs)
  case Nil
  then show ?case by simp
next
  case (Cons x xs)
  have "list_all2 P (map (f x) ys) (map (g x) ys)"
    using Cons.prems by (simp add: list_all2_map1 list_all2_map2 list_all2_same)
  moreover have "list_all2 P (concat (map (\<lambda>x. map (f x) ys) xs)) (concat (map (\<lambda>x. map (g x) ys) xs))"
    using Cons by simp
  ultimately show ?case
    by (simp add: list_all2_appendI)
qed

lemma window_mono:
  assumes "img_le A B" and "r < length A"
  shows "list_all2 (\<le>) (window A k r c) (window B k r c)"
  unfolding window_def img_le_length [OF assms(1)] img_le_row_length [OF assms]
  by (rule list_all2_concat_map) (rule pixel_at_mono [OF assms(1)])

lemma cv2_medianBlur_mono:
  assumes "img_le A B"
  shows "img_le (cv2_medianBlur A k) (cv2_medianBlur B k)"
proof -
  have row: "list_all2 (\<le>) (map (\<lambda>c. median (window A k r c)) [0..<length (A ! r)])
                            (map (\<lambda>c. median (window B k r c)) [0..<length (B ! r)])"
    if "r < length A" for r
  proof -
    have "median (window A k r c) \<le> median (window B k r c)" for c
      by (rule median_mono) (rule window_mono [OF assms that])
    then show ?thesis
      using img_le_row_length [OF assms that]
      by (simp add: list_all2_map1 list_all2_map2 list_all2_same)
  qed
  show ?thesis
    unfolding img_le_def cv2_medianBlur_def img_le_length [OF assms]
    using row by (simp add: list_all2_map1 list_all2_map2 list_all2_same)
qed

lemma pixel_at_binary: "binary_image A \<Longrightarrow> pixel_at A r c = 0 \<or> pixel_at A r c = 255"
  by (auto simp: binary_image_def pixel_at_def list_all_length)

lemma window_offsets_nonempty: "window_offsets k \<noteq> []"
  by (simp add: window_offsets_def)

lemma window_nonempty: "window A k r c \<noteq> []"
  using window_offsets_nonempty [of k] by (cases "window_offsets k") (simp_all add: window_def)

lemma window_binary:
  "binary_image A \<Longrightarrow> p \<in> set (window A k r c) \<Longrightarrow> p = 0 \<or> p = 255"
  using pixel_at_binary [of A] by (auto simp: window_def)

lemma cv2_medianBlur_binary:
  assumes "binary_image A"
  shows "binary_image (cv2_medianBlur A k)"
proof -
  have "median (window A k r c) = 0 \<or> median (window A k r c) = 255" for r c
    using window_binary [OF assms] median_in_set [OF window_nonempty] by blast
  then show ?thesis
    by (simp add: binary_image_def cv2_medianBlur_def list_all_length)
qed

lemma cv2_threshold_binary_binary: "binary_image (cv2_threshold_binary X t 255)"
  by (simp add: binary_image_def cv2_threshold_binary_def list_all_length)

lemma cv2_threshold_binary_antimono:
  assumes "- (2 ^ 31) \<le> t1" and "t1 \<le> t2" and "t2 < 2 ^ 31"
  shows "img_le (cv2_threshold_binary X t2 255) (cv2_threshold_binary X t1 255)"
proof -
  have "cvFloor t1 = t1" and "cvFloor t2 = t2"
    using assms by (simp_all add: cvFloor_def)
  with assms(2) show ?thesis
    by (auto simp: img_le_def cv2_threshold_binary_def list_all2_map1 list_all2_map2
        list_all2_same)
qed

section \<open>Regions of a smaller foreground lie inside regions of a larger one\<close>

lemma coords_cong:
  assumes "img_le A B"
  shows "coords B = coords A"
  unfolding coords_def img_le_length [OF assms]
  by (rule arg_cong [where f = concat], rule map_cong)
     (simp_all add: img_le_row_length [OF assms])

lemma in_foreground:
  "p \<in> set (foreground A) \<longleftrightarrow> p \<in> set (coords A) \<and> pixel_at A (fst p) (snd p) \<noteq> 0"
  by (auto simp: foreground_def)

lemma foreground_mono:
  assumes "img_le A B"
  shows "set (foreground A) \<subseteq> set (foreground B)"
proof
  fix p assume "p \<in> set (foreground A)"
  then have c: "p \<in> set (coords A)" and nz: "pixel_at A (fst p) (snd p) \<noteq> 0"
    by (simp_all add: in_foreground)
  have "pixel_at A (fst p) (snd p) \<le> pixel_at B (fst p) (snd p)"
    by (rule pixel_at_mono [OF assms])
  with nz have "pixel_at B (fst p) (snd p) \<noteq> 0"
    by auto
  with c show "p \<in> set (foreground B)"
    by (simp add: in_foreground coords_cong [OF assms])
qed

lemma in_links:
  "(p, q) \<in> links A \<longleftrightarrow> p \<in> set (foreground A) \<and> q \<in> set (foreground A) \<and> neighbours p q
     \<and> pixel_at A (fst p) (snd p) = pixel_at A (fst q) (snd q)"
  by (auto simp: links_def)

lemma links_mono:
  assumes "img_le A B" and "binary_image B"
  shows "links A \<subseteq> links B"
proof
  fix e assume e: "e \<in> links A"
  obtain p q where pq: "e = (p, q)" by (cases e)
  from e pq have fa: "p \<in> set (foreground A)" "q \<in> set (foreground A)" and n: "neighbours p q"
    by (simp_all add: in_links)
  from fa foreground_mono [OF assms(1)]
  have fb: "p \<in> set (foreground B)" "q \<in> set (foreground B)" by auto
  then have "pixel_at B (fst p) (snd p) = 255" "pixel_at B (fst q) (snd q) = 255"
    using pixel_at_binary [OF assms(2)] by (auto simp: in_foreground)
  with fb n pq show "e \<in> links B"
    by (simp add: in_links)
qed

lemma links_refl: "p \<in> set (foreground A) \<Longrightarrow> (p, p) \<in> links A"
  by (simp add: in_links neighbours_def)

lemma finite_links: "finite (links A)"
  by (simp add: links_def)

lemma finite_region: "finite E \<Longrightarrow> finite (E\<^sup>+ `` {p})"
  by (simp add: finite_Image)

lemma regions_from_origin:
  "R \<in> set (regions_from E ps) \<Longrightarrow> \<exists>p \<in> set ps. R = E\<^sup>+ `` {p}"
proof (induction E ps rule: regions_from.induct)
  case (1 E)
  then show ?case by simp
next
  case (2 E p ps)
  then show ?case by auto
qed

lemma regions_from_cover:
  "p \<in> set ps \<Longrightarrow> \<forall>q \<in> set ps. (q, q) \<in> E
     \<Longrightarrow> \<exists>p0 \<in> set ps. E\<^sup>+ `` {p0} \<in> set (regions_from E ps) \<and> p \<in> E\<^sup>+ `` {p0}"
proof (induction E ps rule: regions_from.induct)
  case (1 E)
  then show ?case by simp
next
  case (2 E p0 ps)
  show ?case
  proof (cases "p \<in> E\<^sup>+ `` {p0}")
    case True
    then show ?thesis by auto
  next
    case False
    with "2.prems" have "p \<noteq> p0" by auto
    with "2.prems" False have "p \<in> set (filter (\<lambda>q. q \<notin> E\<^sup>+ `` {p0}) ps)" by simp
    moreover have "\<forall>q \<in> set (filter (\<lambda>q. q \<notin> E\<^sup>+ `` {p0}) ps). (q, q) \<in> E"
      using "2.prems" by simp
    ultimately obtain p1 where "p1 \<in> set (filter (\<lambda>q. q \<notin> E\<^sup>+ `` {p0}) ps)"
      "E\<^sup>+ `` {p1} \<in> set (regions_from E (filter (\<lambda>q. q \<notin> E\<^sup>+ `` {p0}) ps))"
      "p \<in> E\<^sup>+ `` {p1}"
      using "2.IH" by blast
    then show ?thesis by auto
  qed
qed

lemma label_areas_dominated:
  assumes le: "img_le A B" and bin: "binary_image B"
    and a: "a \<in> set (map card (label_regions A))"
  shows "\<exists>b \<in> set (map card (label_regions B)). a \<le> b"
proof -
  from a obtain R where R: "R \<in> set (label_regions A)" and aR: "a = card R" by auto
  from R obtain p where p: "p \<in> set (foreground A)" and Rp: "R = (links A)\<^sup>+ `` {p}"
    using regions_from_origin [of R "links A" "foreground A"] by (auto simp: label_regions_def)
  from p foreground_mono [OF le] have pB: "p \<in> set (foreground B)" by auto
  have "\<forall>q \<in> set (foreground B). (q, q) \<in> links B"
    by (simp add: links_refl)
  with pB obtain p0 where S: "(links B)\<^sup>+ `` {p0} \<in> set (label_regions B)"
    and pS: "p \<in> (links B)\<^sup>+ `` {p0}"
    using regions_from_cover [of p "foreground B" "links B"] by (auto simp: label_regions_def)
  have "R \<subseteq> (links B)\<^sup>+ `` {p0}"
  proof
    fix q assume "q \<in> R"
    with Rp have "(p, q) \<in> (links A)\<^sup>+" by simp
    then have "(p, q) \<in> (links B)\<^sup>+"
      using trancl_mono [OF _ links_mono [OF le bin]] by blast
    moreover from pS have "(p0, p) \<in> (links B)\<^sup>+" by simp
    ultimately show "q \<in> (links B)\<^sup>+ `` {p0}" by auto
  qed
  then have "card R \<le> card ((links B)\<^sup>+ `` {p0})"
    by (rule card_mono [OF finite_region [OF finite_links]])
  with S aR show ?thesis by auto
qed

section \<open>Properties of get_max_area\<close>

lemma filter_median_images_3:
  "filter_median_images images 3 = Inr (map (\<lambda>image. cv2_medianBlur image 3) images)"
  by (simp add: filter_median_images_def)

lemma get_max_area_region_areas:
  assumes "\<forall>image \<in> set resmaps. has_pixels image"
    and "- (2 ^ 31) \<le> threshold" and "threshold < 2 ^ 31"
  shows "get_max_area resmaps threshold = np_amax (region_areas resmaps threshold)"
  by (simp add: get_max_area_def call_threshold_images_returns [OF assms]
      filter_median_images_3 label_images_def region_areas_def threshold_images_def comp_def)

lemma get_max_area_has_pixels:
  assumes "get_max_area resmaps threshold = Inr m"
  shows "\<forall>image \<in> set resmaps. has_pixels image"
proof (rule ccontr)
  assume "\<not> (\<forall>image \<in> set resmaps. has_pixels image)"
  then have "list_ex (\<lambda>image. concat image = []) resmaps" and "resmaps \<noteq> []"
    by (auto simp: list_ex_iff has_pixels_def)
  then have "\<exists>e. call_threshold_images resmaps threshold = Inl e"
    by (simp add: call_threshold_images_def)
  with assms show False
    by (auto simp: get_max_area_def)
qed

lemma region_areas_dominated:
  assumes "- (2 ^ 31) \<le> tau1" and "tau1 \<le> tau2" and "tau2 < 2 ^ 31"
    and "a \<in> set (region_areas resmaps tau2)"
  shows "\<exists>b \<in> set (region_areas resmaps tau1). a \<le> b"
proof -
  from assms(4) obtain image where im: "image \<in> set resmaps"
    and a: "a \<in> set (map card (label_regions (cv2_medianBlur (cv2_threshold_binary image tau2 255) 3)))"
    by (auto simp: region_areas_def)
  have "img_le (cv2_medianBlur (cv2_threshold_binary image tau2 255) 3)
               (cv2_medianBlur (cv2_threshold_binary image tau1 255) 3)"
    by (rule cv2_medianBlur_mono) (rule cv2_threshold_binary_antimono [OF assms(1-3)])
  moreover have "binary_image (cv2_medianBlur (cv2_threshold_binary image tau1 255) 3)"
    by (rule cv2_medianBlur_binary) (rule cv2_threshold_binary_binary)
  ultimately obtain b
    where "b \<in> set (map card (label_regions (cv2_medianBlur (cv2_threshold_binary image tau1 255) 3)))"
      and "a \<le> b"
    using label_areas_dominated [OF _ _ a] by blast
  with im show ?thesis
    by (auto simp: region_areas_def)
qed

lemma np_amax_Inr:
  "np_amax xs = Inr m \<longleftrightarrow> xs \<noteq> [] \<and> m \<in> set xs \<and> (\<forall>a \<in> set xs. a \<le> m)"
proof (cases "xs = []")
  case True
  then show ?thesis by (simp add: np_amax_def)
next
  case False
  then have "Max (set xs) \<in> set xs" and "\<forall>a \<in> set xs. a \<le> Max (set xs)"
    by simp_all
  moreover have "m = Max (set xs)" if "m \<in> set xs" and "\<forall>a \<in> set xs. a \<le> m"
  proof -
    have "Max (set xs) = m"
      by (rule Max_eqI) (use that in auto)
    then show ?thesis by simp
  qed
  ultimately show ?thesis
    using False by (auto simp: np_amax_def)
qed

lemma region_areas_staged:
  "region_areas resmaps threshold
     = concat (snd (label_images (map (\<lambda>image. cv2_medianBlur image 3)
                                      (threshold_images resmaps threshold))))"
  by (simp add: label_images_def region_areas_def threshold_images_def comp_def)

text \<open>
  A batch of one image with the single row 200, 0, 0, 0, 150, 150. Thresholded at 149 the
  row is 255, 0, 0, 0, 255, 255 and the median filter leaves it unchanged (at the border
  the window repeats the outermost pixel), which gives a region of one pixel and a region
  of two. At 150 only the first pixel remains, at 200 none. A second batch has no
  foreground at all.
\<close>

lemma example_batches_have_pixels:
  "\<forall>image \<in> set [[[200, 0, 0, 0, 150, 150 :: pixel]]]. has_pixels image"
  "\<forall>image \<in> set [[[0, 0], [0, 0 :: pixel]]]. has_pixels image"
  by (simp_all add: has_pixels_def)

lemma filtered_example_149:
  "map (\<lambda>image. cv2_medianBlur image 3) (threshold_images [[[200, 0, 0, 0, 150, 150]]] 149)
     = [[[255, 0, 0, 0, 255, 255]]]"
  by code_simp

lemma filtered_example_150:
  "map (\<lambda>image. cv2_medianBlur image 3) (threshold_images [[[200, 0, 0, 0, 150, 150]]] 150)
     = [[[255, 0, 0, 0, 0, 0]]]"
  by code_simp

lemma filtered_example_200:
  "map (\<lambda>image. cv2_medianBlur image 3) (threshold_images [[[200, 0, 0, 0, 150, 150]]] 200)
     = [[[0, 0, 0, 0, 0, 0]]]"
  by code_simp

lemma filtered_example_dark:
  "map (\<lambda>image. cv2_medianBlur image 3) (threshold_images [[[0, 0], [0, 0]]] 100)
     = [[[0, 0], [0, 0]]]"
  by code_simp

lemma labelled_examples:
  "concat (snd (label_images [[[255, 0, 0, 0, 255, 255]]])) = [1, 2]"
  "concat (snd (label_images [[[255, 0, 0, 0, 0, 0]]])) = [1]"
  "concat (snd (label_images [[[0, 0, 0, 0, 0, 0]]])) = []"
  "concat (snd (label_images [[[0, 0], [0, 0]]])) = []"
  by code_simp+

lemma region_areas_example_149: "region_areas [[[200, 0, 0, 0, 150, 150]]] 149 = [1, 2]"
  by (simp only: region_areas_staged filtered_example_149 labelled_examples)

lemma region_areas_example_150: "region_areas [[[200, 0, 0, 0, 150, 150]]] 150 = [1]"
  by (simp only: region_areas_staged filtered_example_150 labelled_examples)

lemma region_areas_example_200: "region_areas [[[200, 0, 0, 0, 150, 150]]] 200 = []"
  by (simp only: region_areas_staged filtered_example_200 labelled_examples)

lemma region_areas_example_dark: "region_areas [[[0, 0], [0, 0]]] 100 = []"
  by (simp only: region_areas_staged filtered_example_dark labelled_examples)

lemma get_max_area_examples:
  "get_max_area [[[200, 0, 0, 0, 150, 150]]] 149 = Inr 2"
  "get_max_area [[[200, 0, 0, 0, 150, 150]]] 150 = Inr 1"
  "get_max_area [[[200, 0, 0, 0, 150, 150]]] 200 = Inl ValueError"
  "get_max_area [[[0, 0], [0, 0]]] 100 = Inl ValueError"
  by (simp_all add: get_max_area_region_areas example_batches_have_pixels np_amax_def
      region_areas_example_149 region_areas_example_150 region_areas_example_200
      region_areas_example_dark)

text \<open>
  C4 (counterexample). The claim has \<open>get_max_area\<close> return 0 when no region exists. On
  an all-zero image thresholded at 100 there is no region, and the call raises ValueError:
  \<open>np.amax\<close> has no value for an empty array.
\<close>

theorem get_max_area_no_regions_raises:
  "get_max_area [[[0, 0], [0, 0]]] 100 = Inl ValueError"
  by (rule get_max_area_examples)

text \<open>
  C4 (amended). For a batch whose images have pixels and a threshold that fits a signed
  32-bit integer (every threshold of [0, 255] does): when at least one region exists after
  binarizing, median filtering and labelling the whole batch at the threshold,
  \<open>get_max_area\<close> returns an area of one of these regions that no other region exceeds.
  When no region exists it does not return 0: it raises ValueError.
\<close>

theorem get_max_area_largest:
  assumes "\<forall>image \<in> set resmaps. has_pixels image"
    and "- (2 ^ 31) \<le> tau" and "tau < 2 ^ 31"
  shows "(region_areas resmaps tau \<noteq> [] \<longrightarrow>
            (\<exists>m. get_max_area resmaps tau = Inr m \<and> m \<in> set (region_areas resmaps tau)
                 \<and> (\<forall>a \<in> set (region_areas resmaps tau). a \<le> m)))
         \<and> (region_areas resmaps tau = [] \<longrightarrow> get_max_area resmaps tau = Inl ValueError)"
proof (cases "region_areas resmaps tau = []")
  case True
  then show ?thesis
    by (simp add: get_max_area_region_areas [OF assms] np_amax_def)
next
  case False
  then obtain m where m: "np_amax (region_areas resmaps tau) = Inr m"
    by (simp add: np_amax_def)
  then have "m \<in> set (region_areas resmaps tau)"
    and "\<forall>a \<in> set (region_areas resmaps tau). a \<le> m"
    by (simp_all add: np_amax_Inr)
  with m False show ?thesis
    by (simp add: get_max_area_region_areas [OF assms])
qed

theorem get_max_area_largest_witness:
  "has_pixels [[200, 0, 0, 0, 150, 150]]
   \<and> region_areas [[[200, 0, 0, 0, 150, 150]]] 149 = [1, 2]
   \<and> get_max_area [[[200, 0, 0, 0, 150, 150]]] 149 = Inr 2
   \<and> has_pixels [[0, 0], [0, 0]]
   \<and> region_areas [[[0, 0], [0, 0]]] 100 = []
   \<and> get_max_area [[[0, 0], [0, 0]]] 100 = Inl ValueError"
  using get_max_area_largest [OF example_batches_have_pixels(1), of 149]
    get_max_area_largest [OF example_batches_have_pixels(2), of 100]
  by (simp add: region_areas_example_149 region_areas_example_dark
      has_pixels_def get_max_area_examples)

text \<open>
  C7 (counterexample). The claim compares \<open>get_max_area\<close> at any two thresholds
  \<open>tau1 \<le> tau2\<close>. At \<open>tau1 = 149\<close> the example batch has a largest area of 2, but at
  \<open>tau2 = 200\<close> no pixel is above the threshold and the call raises instead of returning
  an area that could be compared.
\<close>

theorem get_max_area_not_comparable:
  "get_max_area [[[200, 0, 0, 0, 150, 150]]] 149 = Inr 2
   \<and> get_max_area [[[200, 0, 0, 0, 150, 150]]] 200 = Inl ValueError"
  by (simp add: get_max_area_examples)

text \<open>
  C7 (amended). For thresholds \<open>tau1 \<le> tau2\<close> that fit a signed 32-bit integer (every
  threshold of [0, 255] does): whenever \<open>get_max_area\<close> returns an area at \<open>tau2\<close>, it
  returns an area at \<open>tau1\<close> too, and the area at \<open>tau2\<close> is not larger.
\<close>

theorem get_max_area_antimono:
  assumes "- (2 ^ 31) \<le> tau1" and "tau1 \<le> tau2" and "tau2 < 2 ^ 31"
    and "get_max_area resmaps tau2 = Inr a2"
  shows "\<exists>a1. get_max_area resmaps tau1 = Inr a1 \<and> a2 \<le> a1"
proof -
  have px: "\<forall>image \<in> set resmaps. has_pixels image"
    by (rule get_max_area_has_pixels [OF assms(4)])
  have r1: "get_max_area resmaps tau1 = np_amax (region_areas resmaps tau1)"
    by (rule get_max_area_region_areas [OF px]) (use assms in simp_all)
  have r2: "get_max_area resmaps tau2 = np_amax (region_areas resmaps tau2)"
    by (rule get_max_area_region_areas [OF px]) (use assms in simp_all)
  from assms(4) have "a2 \<in> set (region_areas resmaps tau2)"
    by (simp add: r2 np_amax_Inr)
  then obtain b where b: "b \<in> set (region_areas resmaps tau1)" and le: "a2 \<le> b"
    using region_areas_dominated [OF assms(1-3)] by blast
  then have ne: "region_areas resmaps tau1 \<noteq> []" by auto
  then obtain a1 where a1: "np_amax (region_areas resmaps tau1) = Inr a1"
    by (simp add: np_amax_def)
  then have "b \<le> a1"
    using b by (simp add: np_amax_Inr)
  with le a1 show ?thesis
    by (auto simp: r1)
qed

theorem get_max_area_antimono_witness:
  "- (2 ^ 31) \<le> (149::int) \<and> (149::int) \<le> 150 \<and> (150::int) < 2 ^ 31
   \<and> get_max_area [[[200, 0, 0, 0, 150, 150]]] 150 = Inr 1
   \<and> get_max_area [[[200, 0, 0, 0, 150, 150]]] 149 = Inr 2"
  using get_max_area_antimono [of 149 150 "[[[200, 0, 0, 0, 150, 150]]]" 1]
  by (simp add: get_max_area_examples)

section \<open>Properties of get_area_size_counts_multiple_thresholds\<close>















section \<open>Properties of get_threshold_min\<close>

text \<open>
  The body of \<open>get_threshold_min\<close> never reads its two parameters: for one module array
  every batch and every percentile passed give the same result.
\<close>

lemma get_threshold_min_args:
  "get_threshold_min norm_ppf resmaps_val_uint8 resmaps ppf_value
     = get_threshold_min norm_ppf resmaps_val_uint8 resmaps' ppf_value'"
  by (simp add: get_threshold_min_def)

lemma np_rint_bounds: "\<lfloor>x\<rfloor> \<le> np_rint x \<and> np_rint x \<le> \<lfloor>x\<rfloor> + 1"
  by (simp add: np_rint_def)

lemma np_mean_example_100: "np_mean (flatten [[[90, 110]]]) = 100"
  by (simp add: np_mean_def flatten_def)

lemma np_std_example_100: "np_std (flatten [[[90, 110]]]) = 10"
proof -
  have "np_mean (map (\<lambda>x. (x - 100)\<^sup>2) (flatten [[[90, 110]]])) = 10\<^sup>2"
    by (simp add: np_mean_def flatten_def)
  then show ?thesis
    unfolding np_std_def np_mean_example_100 by (simp del: power2_eq_square)
qed

lemma np_mean_example_200: "np_mean (flatten [[[190, 210]]]) = 200"
  by (simp add: np_mean_def flatten_def)

lemma np_std_example_200: "np_std (flatten [[[190, 210]]]) = 10"
proof -
  have "np_mean (map (\<lambda>x. (x - 200)\<^sup>2) (flatten [[[190, 210]]])) = 10\<^sup>2"
    by (simp add: np_mean_def flatten_def)
  then show ?thesis
    unfolding np_std_def np_mean_example_200 by (simp del: power2_eq_square)
qed

lemma th_min_of_interval:
  assumes "real_of_int k + 8 / 10 < x" and "x < real_of_int k + 9 / 10" and "0 \<le> k"
  shows "py_int (py_round x 1) - 1 = k - 1"
proof -
  have "\<lfloor>x * 10\<rfloor> = 10 * k + 8"
    using assms by (simp add: floor_eq_iff)
  then have "10 * k + 8 \<le> np_rint (x * 10)" "np_rint (x * 10) \<le> 10 * k + 9"
    using np_rint_bounds [of "x * 10"] by simp_all
  then have "real_of_int k \<le> py_round x 1" "py_round x 1 < real_of_int k + 1"
    by (simp_all add: py_round_def field_simps)
  then have "\<lfloor>py_round x 1\<rfloor> = k" "0 \<le> py_round x 1"
    using assms(3) by (simp_all add: floor_eq_iff)
  then show ?thesis
    by (simp add: py_int_def)
qed

text \<open>
  C2 (the code at a failing input). The module array holds the pixels 90 and 110 (mean
  100, standard deviation 10); the call passes a batch with the pixels 190 and 210 (mean
  200, standard deviation 10) and the percentile 0.5. For a quantile function with the
  values of the normal distribution at 0.97 (mu + 1.88.. sigma) and at 0.5 (mu), the
  claim gives 200 - 1 = 199. The code returns 117, the value for the module array at
  0.97, and returns it for the percentile 0.97 as well.
\<close>

theorem get_threshold_min_ignores_arguments:
  assumes "\<forall>mu sigma. 0 < sigma \<longrightarrow> norm_ppf mu sigma (97 / 100) = mu + sigma * z"
    and "188 / 100 < z" and "z < 189 / 100"
    and "\<forall>mu sigma. 0 < sigma \<longrightarrow> norm_ppf mu sigma (1 / 2) = mu"
  shows "get_threshold_min norm_ppf [[[90, 110]]] [[[190, 210]]] (1 / 2) = Inr 117
       \<and> get_threshold_min norm_ppf [[[90, 110]]] [[[190, 210]]] (97 / 100) = Inr 117
       \<and> stated_threshold_min norm_ppf [[[190, 210]]] (1 / 2) = 199"
proof -
  have ne: "flatten [[[90, 110]]] \<noteq> []"
    by (simp add: flatten_def)
  have p1: "norm_ppf 100 10 (97 / 100) = 100 + 10 * z"
    using assms(1) by simp
  have p2: "norm_ppf 200 10 (1 / 2) = 200"
    using assms(4) by simp
  have "py_int (py_round (100 + 10 * z) 1) - 1 = 118 - 1"
    by (rule th_min_of_interval) (use assms in simp_all)
  then have "get_threshold_min norm_ppf [[[90, 110]]] resmaps ppf_value = Inr 117"
    for resmaps ppf_value
    using ne by (simp add: get_threshold_min_def np_mean_example_100 np_std_example_100 p1)
  moreover have "stated_threshold_min norm_ppf [[[190, 210]]] (1 / 2) = 199"
    by (simp add: stated_threshold_min_def np_mean_example_200 np_std_example_200 p2)
  ultimately show ?thesis by simp
qed

theorem get_threshold_min_ignores_arguments_witness:
  "get_threshold_min (\<lambda>mu sigma q. if q = 1 / 2 then mu else mu + sigma * (1885 / 1000))
     [[[90, 110]]] [[[190, 210]]] (1 / 2) = Inr 117
   \<and> stated_threshold_min (\<lambda>mu sigma q. if q = 1 / 2 then mu else mu + sigma * (1885 / 1000))
     [[[190, 210]]] (1 / 2) = 199"
  using get_threshold_min_ignores_arguments
          [of "\<lambda>mu sigma q. if q = 1 / 2 then mu else mu + sigma * (1885 / 1000)"
              "1885 / 1000"]
  by simp

text \<open>
  C9 (the code at a failing input). Two calls pass the same arguments while the module
  array differs: with the pixels 90 and 110 in the module array the result is 117, with
  190 and 210 it is 217, whatever batch and percentile are passed. The quantile function
  is any function with the values of the normal distribution at 0.97.
\<close>

theorem get_threshold_min_follows_module_state:
  assumes "\<forall>mu sigma. 0 < sigma \<longrightarrow> norm_ppf mu sigma (97 / 100) = mu + sigma * z"
    and "188 / 100 < z" and "z < 189 / 100"
  shows "get_threshold_min norm_ppf [[[90, 110]]] resmaps ppf_value = Inr 117
       \<and> get_threshold_min norm_ppf [[[190, 210]]] resmaps ppf_value = Inr 217"
proof -
  have ne: "flatten [[[90, 110]]] \<noteq> []" "flatten [[[190, 210]]] \<noteq> []"
    by (simp_all add: flatten_def)
  have p1: "norm_ppf 100 10 (97 / 100) = 100 + 10 * z" and p2: "norm_ppf 200 10 (97 / 100) = 200 + 10 * z"
    using assms(1) by simp_all
  have "py_int (py_round (100 + 10 * z) 1) - 1 = 118 - 1"
    by (rule th_min_of_interval) (use assms in simp_all)
  moreover have "py_int (py_round (200 + 10 * z) 1) - 1 = 218 - 1"
    by (rule th_min_of_interval) (use assms in simp_all)
  ultimately show ?thesis
    using ne
    by (simp add: get_threshold_min_def np_mean_example_100 np_std_example_100
        np_mean_example_200 np_std_example_200 p1 p2)
qed

theorem get_threshold_min_follows_module_state_witness:
  "get_threshold_min (\<lambda>mu sigma p. mu + sigma * (1885 / 1000)) [[[90, 110]]] [[[1, 2]]] (1 / 2) = Inr 117
   \<and> get_threshold_min (\<lambda>mu sigma p. mu + sigma * (1885 / 1000)) [[[190, 210]]] [[[1, 2]]] (1 / 2) = Inr 217"
  using get_threshold_min_follows_module_state
          [of "\<lambda>mu sigma p. mu + sigma * (1885 / 1000)" "1885 / 1000" "[[[1, 2]]]" "1 / 2"]
  by simp

section \<open>Properties of the scoring statements\<close>

text \<open>
  When the ground truth and the predictions together hold both labels 0 and 1, the scoring
  statements return TPR = TP / (TP + FN) and TNR = TN / (TN + FP) as numpy divides, and
  TPR is NaN when no image is defective in the ground truth.
\<close>

lemma sum_list_upt_Suc_shift:
  "sum_list (map f [0..<Suc n]) = f 0 + sum_list (map (\<lambda>i. f (Suc i)) [0..<n])"
proof -
  have "[0..<Suc n] = 0 # map Suc [0..<n]"
    by (simp add: upt_conv_Cons map_Suc_upt del: upt_Suc)
  then show ?thesis
    by (simp add: comp_def del: upt_Suc)
qed

lemma index_sum_outcome_count:
  "length xs = length ys \<Longrightarrow>
     sum_list (map (\<lambda>i. if xs ! i = ys ! i \<and> ys ! i = t then 1 else 0) [0..<length ys])
       = int (outcome_count xs ys t t)"
proof (induction xs ys rule: list_induct2)
  case Nil
  then show ?case by (simp add: outcome_count_def)
next
  case (Cons x xs y ys)
  have "sum_list (map (\<lambda>i. if (x # xs) ! i = (y # ys) ! i \<and> (y # ys) ! i = t then 1 else 0)
                      [0..<Suc (length ys)])
      = (if x = y \<and> y = t then 1 else 0)
        + sum_list (map (\<lambda>i. if xs ! i = ys ! i \<and> ys ! i = t then 1 else 0) [0..<length ys])"
    by (subst sum_list_upt_Suc_shift) simp
  also have "\<dots> = (if x = y \<and> y = t then 1 else 0) + int (outcome_count xs ys t t)"
    using Cons.IH by simp
  also have "\<dots> = int (outcome_count (x # xs) (y # ys) t t)"
    by (auto simp: outcome_count_def)
  finally show ?case
    by (simp del: upt_Suc)
qed

lemma py_count_split:
  "length xs = length ys \<Longrightarrow> set xs \<subseteq> {0, 1} \<Longrightarrow>
     py_count ys t = outcome_count xs ys 1 t + outcome_count xs ys 0 t"
  by (induction xs ys rule: list_induct2) (auto simp: py_count_def outcome_count_def)

lemma unique_labels_both:
  assumes "set y_true \<union> set y_pred = {0, 1}"
  shows "unique_labels y_true y_pred = [0, 1]"
proof -
  have "sorted (unique_labels y_true y_pred)" "distinct (unique_labels y_true y_pred)"
    and "set (unique_labels y_true y_pred) = {0, 1}"
    using assms by (simp_all add: unique_labels_def)
  moreover have "sorted [0, 1 :: int]" "distinct [0, 1 :: int]" "set [0, 1 :: int] = {0, 1}"
    by simp_all
  ultimately show ?thesis
    by (metis sorted_distinct_set_unique)
qed

lemma main_scoring_rates:
  assumes len: "length y_pred = n" "length y_true = n"
    and labels: "set y_true \<union> set y_pred = {0, 1}"
  shows "main_scoring y_pred y_true n
         = Inr (np_true_divide (real (outcome_count y_pred y_true 1 1))
                  (real (outcome_count y_pred y_true 1 1 + outcome_count y_pred y_true 0 1)),
                np_true_divide (real (outcome_count y_pred y_true 0 0))
                  (real (outcome_count y_pred y_true 0 0 + outcome_count y_pred y_true 1 0)))"
proof -
  have eq: "length y_pred = length y_true"
    using len by simp
  have sub: "set y_pred \<subseteq> {0, 1}"
    using labels by auto
  have tp: "sum_list (map (\<lambda>i. if y_pred ! i = y_true ! i \<and> y_true ! i = 1 then 1 else 0) [0..<n])
      = int (outcome_count y_pred y_true 1 1)"
    using index_sum_outcome_count [OF eq, of 1] len by simp
  have tn: "sum_list (map (\<lambda>i. if y_pred ! i = y_true ! i \<and> y_true ! i = 0 then 1 else 0) [0..<n])
      = int (outcome_count y_pred y_true 0 0)"
    using index_sum_outcome_count [OF eq, of 0] len by simp
  have p: "py_count y_true 1 = outcome_count y_pred y_true 1 1 + outcome_count y_pred y_true 0 1"
    by (rule py_count_split [OF eq sub])
  have n: "py_count y_true 0 = outcome_count y_pred y_true 0 0 + outcome_count y_pred y_true 1 0"
    using py_count_split [OF eq sub, of 0] by simp
  have cm: "confusion_matrix_normalize_true y_true y_pred = Inr M \<Longrightarrow> length (concat M) = 4" for M
    using eq by (auto simp: confusion_matrix_normalize_true_def unique_labels_both [OF labels])
  have "\<exists>M. confusion_matrix_normalize_true y_true y_pred = Inr M"
    using eq by (simp add: confusion_matrix_normalize_true_def unique_labels_both [OF labels])
  then obtain M where M: "confusion_matrix_normalize_true y_true y_pred = Inr M" by blast
  show ?thesis
    using len cm [OF M] by (simp add: main_scoring_def M tp tn p n del: of_nat_add)
qed

lemma main_scoring_absent_class:
  assumes "length y_pred = n" "length y_true = n" "set y_true \<union> set y_pred = {0, 1}"
    and "1 \<notin> set y_true"
  shows "\<exists>tnr. main_scoring y_pred y_true n = Inr (NaN, tnr)"
proof -
  have "outcome_count y_pred y_true p 1 = 0" for p
    using assms(4) by (auto simp: outcome_count_def filter_empty_conv dest: set_zip_rightD)
  then show ?thesis
    by (simp add: main_scoring_rates [OF assms(1-3)] np_true_divide_def)
qed

text \<open>
  C6 (the code at a failing input). Two images, both without defect in the ground truth
  and both predicted without defect: the class 1 is absent, and the claim has TPR
  reported as NaN. The confusion matrix has the single label 0 and one entry, the
  unpacking into four names raises ValueError and no rate is reported. With one of the
  two images predicted defective the matrix has four entries and TPR is NaN.
\<close>

theorem main_scoring_single_class_raises:
  "main_scoring [0, 0] [0, 0] 2 = Inl ValueError
   \<and> main_scoring [0, 1] [0, 0] 2 = Inr (NaN, Finite (1 / 2))"
  by (simp add: main_scoring_def confusion_matrix_normalize_true_def unique_labels_def
      py_count_def np_true_divide_def upt_rec)

end
